theory Spec2Isabelle
  imports Complex_Main "HOL-Library.AList"
begin

section \<open>JavaScript values\<close>

text \<open>
  The values that reach \<^verbatim>\<open>server.js\<close> come out of \<^verbatim>\<open>express.json()\<close> and
  \<^verbatim>\<open>JSON.parse\<close>: JSON values, plus \<^verbatim>\<open>undefined\<close> for a property that is not there.
  An object is an association list of its own properties. A number carries the value of
  the parsed literal; the code only ever tests a number of a cookie or of the request body
  for truthiness, so a literal that overflows to \<^verbatim>\<open>Infinity\<close> behaves as any non-zero
  value. Strings are byte strings.
\<close>

datatype jsval =
    Undefined
  | Null
  | Bool bool
  | Num rat
  | Str string
  | Arr "jsval list"
  | Obj "(string \<times> jsval) list"

type_synonym cookie = "(string \<times> jsval) list"

text \<open>JavaScript's ToBoolean on these values.\<close>

fun truthy :: "jsval \<Rightarrow> bool" where
  "truthy Undefined = False"
| "truthy Null = False"
| "truthy (Bool b) = b"
| "truthy (Num r) = (r \<noteq> 0)"
| "truthy (Str s) = (s \<noteq> [])"
| "truthy (Arr _) = True"
| "truthy (Obj _) = True"

text \<open>\<^verbatim>\<open>typeof v === 'string'\<close>.\<close>

fun is_string :: "jsval \<Rightarrow> bool" where
  "is_string (Str _) = True"
| "is_string _ = False"

text \<open>
  \<^verbatim>\<open>String.prototype.toLowerCase\<close>. Only the letters A to Z are mapped. The code compares
  the result with four ASCII words without the letter k; no character outside ASCII
  lower-cases to one of their letters, so the comparisons come out as in JavaScript.
\<close>

definition lower_char :: "char \<Rightarrow> char" where
  "lower_char c =
     (let n = (of_char c :: nat) in if 65 \<le> n \<and> n \<le> 90 then char_of (n + 32) else c)"

definition toLowerCase :: "string \<Rightarrow> string" where
  "toLowerCase s = map lower_char s"

text \<open>
  The decimal digits of a number, as a template literal renders an index or a length.
\<close>

definition digit :: "nat \<Rightarrow> char" where
  "digit d = ''0123456789'' ! d"

fun decimal :: "nat \<Rightarrow> string" where
  "decimal n = (if n < 10 then [digit n] else decimal (n div 10) @ [digit (n mod 10)])"

declare decimal.simps [simp del]

text \<open>
  Reading a property: \<^verbatim>\<open>o.k\<close> is \<^verbatim>\<open>undefined\<close> when \<^verbatim>\<open>o\<close> has no property \<^verbatim>\<open>k\<close>
  (\<^verbatim>\<open>Object.prototype\<close> has none of the names read here).
\<close>

definition get_prop :: "cookie \<Rightarrow> string \<Rightarrow> jsval" where
  "get_prop obj k = (case map_of obj k of None \<Rightarrow> Undefined | Some v \<Rightarrow> v)"

text \<open>
  Object spread \<^verbatim>\<open>{ ...v }\<close>: the own enumerable properties of \<^verbatim>\<open>v\<close>. An array and a
  string spread their indices; \<^verbatim>\<open>null\<close>, a number and a boolean spread nothing.
\<close>

fun spread :: "jsval \<Rightarrow> cookie" where
  "spread (Obj kvs) = kvs"
| "spread (Arr xs) = zip (map decimal [0..<length xs]) xs"
| "spread (Str s) = zip (map decimal [0..<length s]) (map (\<lambda>c. Str [c]) s)"
| "spread _ = []"

section \<open>Cookie normalization (server.js, lines 49 to 81)\<close>

text \<open>
  The callback of \<^verbatim>\<open>cookies.map\<close>, lines 60 to 81, in its two parts: the copy of the
  entry with the fields deleted that the engine rejects (lines 61 to 67), and the
  treatment of \<^verbatim>\<open>sameSite\<close> (lines 69 to 79).
\<close>

definition stripFields :: "jsval \<Rightarrow> cookie" where
  "stripFields cookie =
     (let newCookie0 = spread cookie;
          newCookie1 = AList.delete ''storeId'' newCookie0;
          newCookie2 = AList.delete ''id'' newCookie1
      in if truthy (get_prop newCookie2 ''session'')
         then AList.delete ''expirationDate'' newCookie2 else newCookie2)"

definition normalizeSameSite :: "cookie \<Rightarrow> cookie" where
  "normalizeSameSite newCookie =
     (let sameSite = get_prop newCookie ''sameSite''
      in if truthy sameSite \<and> is_string sameSite then
           (case sameSite of
              Str s \<Rightarrow>
                (let normalizedSameSite = toLowerCase s
                 in if normalizedSameSite = ''no_restriction''
                    then AList.update ''sameSite'' (Str ''None'') newCookie
                    else if normalizedSameSite \<noteq> ''strict'' \<and> normalizedSameSite \<noteq> ''lax''
                            \<and> normalizedSameSite \<noteq> ''none''
                    then AList.delete ''sameSite'' newCookie
                    else newCookie)
            | _ \<Rightarrow> newCookie)
         else if sameSite = Null \<or> sameSite = Undefined then AList.delete ''sameSite'' newCookie
         else newCookie)"

definition normalizeCookie :: "jsval \<Rightarrow> cookie" where
  "normalizeCookie cookie = normalizeSameSite (stripFields cookie)"

text \<open>
  \<^verbatim>\<open>cookies.map(f)\<close> on the parsed value: only an array has a \<^verbatim>\<open>map\<close> method, every
  other JSON value makes the call throw a TypeError, whose message (in V8's wording) is
  the result.
\<close>

fun array_map :: "(jsval \<Rightarrow> 'a) \<Rightarrow> jsval \<Rightarrow> string + 'a list" where
  "array_map f (Arr xs) = Inr (map f xs)"
| "array_map f Null = Inl ''Cannot read properties of null (reading 'map')''"
| "array_map f Undefined = Inl ''Cannot read properties of undefined (reading 'map')''"
| "array_map f _ = Inl ''cookies.map is not a function''"

text \<open>
  Lines 49 to 81. \<^verbatim>\<open>JSON.parse\<close> is the engine's: the parameter \<open>JSON_parse\<close> gives its
  result on the raw value (after the conversion to a string), \<open>None\<close> when it throws.
  \<open>Inl\<close> carries the message of the error thrown.
\<close>

definition normalizeCookies :: "(jsval \<Rightarrow> jsval option) \<Rightarrow> jsval \<Rightarrow> string + cookie list" where
  "normalizeCookies JSON_parse rawCookies =
     (if \<not> truthy rawCookies
      then Inl ''User authentication failed: Cookies were not provided.''
      else case JSON_parse rawCookies of
             None \<Rightarrow> Inl ''User authentication failed: Cookies format is invalid JSON.''
           | Some cookies \<Rightarrow> array_map normalizeCookie cookies)"

text \<open>
  What the data model calls an entry record is a JSON object; the code never asks whether
  an element of the parsed array is one.
\<close>

fun is_record :: "jsval \<Rightarrow> bool" where
  "is_record (Obj _) = True"
| "is_record _ = False"

section \<open>The outside world and the trace of a run\<close>

text \<open>
  A thrown error is represented by its \<^verbatim>\<open>message\<close>, the only part of it the code reads.
  Each call into a library either returns or throws: \<open>None\<close> is a normal return, \<open>Some m\<close>
  a throw with message \<open>m\<close>. The answers of the libraries are collected in a record, and
  every theorem below holds for every such record. Navigation is asked with the number of
  the call (0 for the home page, \<open>i\<close> for the \<open>i\<close>-th video) and the URL; \<open>page_query\<close> is
  \<^verbatim>\<open>page.$\<close> on the selector of line 111, which throws or tells whether the element is
  there.
\<close>

datatype axios_outcome =
    Responds "string option list"
      \<comment> \<open>the \<^verbatim>\<open>id.videoId\<close> of each item of \<^verbatim>\<open>response.data.items\<close>, if it has one\<close>
  | Fails
      \<comment> \<open>anything thrown inside the \<^verbatim>\<open>try\<close> of \<^verbatim>\<open>getCuratedVideoIds\<close>\<close>
  | FailsOddly string
      \<comment> \<open>the same, and the \<^verbatim>\<open>catch\<close> block's own read of
          \<^verbatim>\<open>error.response.data.error.message\<close> throws this TypeError\<close>

record world =
  JSON_parse :: "jsval \<Rightarrow> jsval option"
  API_KEY :: "string option"
  axios_get :: "string \<Rightarrow> axios_outcome"
  puppeteer_launch :: "string option"
  browser_newPage :: "string option"
  page_setUserAgent :: "string option"
  page_setCookie :: "cookie list \<Rightarrow> string option"
  page_goto :: "nat \<Rightarrow> string \<Rightarrow> string option"
  page_query :: "string + bool"
  browser_close :: "string option"

text \<open>
  What a run does to the outside, in order. A call is recorded when it is made, whether
  it then returns or throws. \<^verbatim>\<open>io.to(socketId).emit\<close> is fire-and-forget and does not
  throw; console output is left out.
\<close>

datatype event =
    Log string string
  | DetoxComplete string
  | DetoxError string

datatype action =
    Emit string event
  | Launch
  | NewPage
  | SetUserAgent
  | SetCookie "cookie list"
  | Goto string
  | Query
  | Timeout int
  | Close

text \<open>\<^verbatim>\<open>emitLog\<close> (line 34) with a type given, and the closure \<^verbatim>\<open>log\<close> (line 44) called
  without one, which takes the default.\<close>

definition emitLog :: "string \<Rightarrow> string \<Rightarrow> string \<Rightarrow> action" where
  "emitLog socketId message type = Emit socketId (Log message type)"

definition log_msg :: "string \<Rightarrow> string \<Rightarrow> action" where
  "log_msg socketId msg = emitLog socketId msg ''status-in-progress''"

section \<open>The content resolver (youtubeApi.js)\<close>

definition getCuratedVideoIds :: "world \<Rightarrow> string \<Rightarrow> string + string list" where
  "getCuratedVideoIds w topic =
     (if API_KEY w = None \<or> API_KEY w = Some []
      then Inl ''ERROR: YOUTUBE_API_KEY is missing. Check your .env file.''
      else case axios_get w (topic @ '' tutorial long form'') of
             Responds items \<Rightarrow> Inr [v. Some v \<leftarrow> items, v \<noteq> []]
           | Fails \<Rightarrow>
               Inl ''Failed to fetch videos from YouTube. Check your API key or quota.''
           | FailsOddly m \<Rightarrow> Inl m)"

section \<open>The orchestrator (server.js, runDetoxAutomation)\<close>

text \<open>
  The total duration is a whole number of seconds, of either sign. JavaScript computes
  the loop on doubles; on whole seconds its comparisons, differences and minima are those
  of the integers.
\<close>

definition MIN_WATCH_TIME_PER_VIDEO_MS :: int where
  "MIN_WATCH_TIME_PER_VIDEO_MS = 30000"

text \<open>
  \<^verbatim>\<open>(ms / 1000).toFixed(1)\<close>. The duration of a run is a whole number of seconds here, so
  every time the loop computes is a multiple of 1000 ms and the division is exact; the
  rounding to one decimal (half up) is written out all the same.
\<close>

definition toFixed1 :: "int \<Rightarrow> string" where
  "toFixed1 ms =
     (let tenths = (\<bar>ms\<bar> + 50) div 100
      in (if ms < 0 then ''-'' else []) @ decimal (nat (tenths div 10)) @ ''.''
           @ decimal (nat (tenths mod 10)))"

text \<open>
  A step of the \<^verbatim>\<open>try\<close> block yields the actions it performed and either the message of
  the error it threw or its value. \<open>andThen\<close> runs the next step unless the first threw.
\<close>

type_synonym 'a step = "action list \<times> (string + 'a)"

definition andThen :: "'a step \<Rightarrow> ('a \<Rightarrow> 'b step) \<Rightarrow> 'b step" where
  "andThen m f =
     (case m of
        (acts, Inl e) \<Rightarrow> (acts, Inl e)
      | (acts, Inr x) \<Rightarrow> (case f x of (acts', r) \<Rightarrow> (acts @ acts', r)))"

definition call :: "action \<Rightarrow> string option \<Rightarrow> unit step" where
  "call a outcome = ([a], case outcome of None \<Rightarrow> Inr () | Some e \<Rightarrow> Inl e)"

definition emit :: "action \<Rightarrow> unit step" where
  "emit a = ([a], Inr ())"

text \<open>
  The loop of lines 119 to 136 from the video at \<open>index\<close> on. It yields the final
  \<^verbatim>\<open>watchedTime\<close>, or the message of the navigation that threw.
\<close>

fun watchLoop ::
  "world \<Rightarrow> string \<Rightarrow> int \<Rightarrow> nat \<Rightarrow> nat \<Rightarrow> string list \<Rightarrow> int \<Rightarrow> int step" where
  "watchLoop w socketId totalDurationMs len index [] watchedTime = ([], Inr watchedTime)"
| "watchLoop w socketId totalDurationMs len index (videoId # rest) watchedTime =
     (if watchedTime \<ge> totalDurationMs then ([], Inr watchedTime)
      else
        let videoUrl = ''https://www.youtube.com/watch?v='' @ videoId;
            remainingTime = totalDurationMs - watchedTime;
            watchDuration = min MIN_WATCH_TIME_PER_VIDEO_MS remainingTime;
            durationSeconds = toFixed1 watchDuration;
            pre = [log_msg socketId (''Watching video '' @ decimal (index + 1) @ ''/''
                     @ decimal len @ '' for '' @ durationSeconds @ ''s.''),
                   Goto videoUrl]
        in case page_goto w (index + 1) videoUrl of
             Some e \<Rightarrow> (pre, Inl e)
           | None \<Rightarrow>
               (case watchLoop w socketId totalDurationMs len (index + 1) rest
                       (watchedTime + watchDuration) of
                  (acts, r) \<Rightarrow> (pre @ [Timeout watchDuration] @ acts, r)))"

text \<open>Lines 48 to 90: everything before the browser is launched.\<close>

definition prepare :: "world \<Rightarrow> string \<Rightarrow> jsval \<Rightarrow> string \<Rightarrow> (cookie list \<times> string list) step" where
  "prepare w topic rawCookies socketId =
     andThen (emit (log_msg socketId ''Validating authentication data...'')) (\<lambda>_.
     andThen ([], normalizeCookies (JSON_parse w) rawCookies) (\<lambda>cookies.
     andThen (emit (log_msg socketId ''Cookies parsed and normalized. Fetching video list...'')) (\<lambda>_.
     andThen ([], getCuratedVideoIds w topic) (\<lambda>videoIds.
     if length videoIds = 0
     then ([], Inl ''Could not find relevant long-form videos for this topic.'')
     else
     andThen (emit (log_msg socketId (''Found '' @ decimal (length videoIds)
                @ '' videos. Initiating browser automation...''))) (\<lambda>_.
     ([], Inr (cookies, videoIds)))))))"

text \<open>Lines 98 to 139: from the new page to the success event, the browser being open.\<close>

definition session :: "world \<Rightarrow> int \<Rightarrow> string \<Rightarrow> cookie list \<Rightarrow> string list \<Rightarrow> unit step" where
  "session w totalDurationSeconds socketId cookies videoIds =
     andThen (call NewPage (browser_newPage w)) (\<lambda>_.
     andThen (call SetUserAgent (page_setUserAgent w)) (\<lambda>_.
     andThen (emit (log_msg socketId ''Applying user session cookies...'')) (\<lambda>_.
     andThen (call (SetCookie cookies) (page_setCookie w cookies)) (\<lambda>_.
     andThen (emit (log_msg socketId ''Cookies set. Navigating to YouTube...'')) (\<lambda>_.
     andThen (call (Goto ''https://www.youtube.com/'')
                (page_goto w 0 ''https://www.youtube.com/'')) (\<lambda>_.
     andThen ([Query], page_query w) (\<lambda>isLoggedIn.
     andThen (emit (if \<not> isLoggedIn
                then emitLog socketId
                       ''WARNING: Login verification failed. Cookies may be expired.''
                       ''status-error''
                else emitLog socketId ''SUCCESS: Login confirmed.'' ''status-success'')) (\<lambda>_.
     andThen (watchLoop w socketId (totalDurationSeconds * 1000) (length videoIds) 0 videoIds 0)
       (\<lambda>watchedTime.
     emit (Emit socketId (DetoxComplete
       (''Detox session finished. Total time simulated: '' @ toFixed1 watchedTime
          @ ''s.''))))))))))))"

text \<open>
  The \<^verbatim>\<open>try\<close> block, lines 46 to 140: its actions, whether the variable \<^verbatim>\<open>browser\<close> was
  assigned, and the message of the error that left the block, if one did.
\<close>

definition tryBlock ::
  "world \<Rightarrow> string \<Rightarrow> int \<Rightarrow> jsval \<Rightarrow> string \<Rightarrow> action list \<times> bool \<times> string option" where
  "tryBlock w topic totalDurationSeconds rawCookies socketId =
     (case prepare w topic rawCookies socketId of
        (acts, Inl e) \<Rightarrow> (acts, False, Some e)
      | (acts, Inr (cookies, videoIds)) \<Rightarrow>
          (case puppeteer_launch w of
             Some e \<Rightarrow> (acts @ [Launch], False, Some e)
           | None \<Rightarrow>
               (case session w totalDurationSeconds socketId cookies videoIds of
                  (acts', Inl e) \<Rightarrow> (acts @ [Launch] @ acts', True, Some e)
                | (acts', Inr _) \<Rightarrow> (acts @ [Launch] @ acts', True, None))))"

text \<open>
  The whole function: \<^verbatim>\<open>try\<close>, \<^verbatim>\<open>catch\<close> (line 143) and \<^verbatim>\<open>finally\<close> (lines 145 to
  148). \<open>rejected\<close> is the message the returned promise rejects with: only
  \<^verbatim>\<open>browser.close()\<close> can throw outside the \<^verbatim>\<open>try\<close>.
\<close>

record run =
  trace :: "action list"
  browser :: bool
  rejected :: "string option"

definition runDetoxAutomation :: "world \<Rightarrow> string \<Rightarrow> int \<Rightarrow> jsval \<Rightarrow> string \<Rightarrow> run" where
  "runDetoxAutomation w topic totalDurationSeconds rawCookies socketId =
     (case tryBlock w topic totalDurationSeconds rawCookies socketId of
        (tryActs, launched, thrown) \<Rightarrow>
          (let catchActs = (case thrown of
                              Some message \<Rightarrow> [Emit socketId (DetoxError message)]
                            | None \<Rightarrow> []);
               finallyActs = (if launched then [Close] else [])
           in \<lparr>trace = tryActs @ catchActs @ finallyActs,
               browser = launched,
               rejected = (if launched then browser_close w else None)\<rparr>))"

section \<open>The entry operation (server.js, lines 153 to 161)\<close>

record body =
  body_topic :: jsval
  body_duration :: jsval
  body_userCookies :: jsval
  body_socketId :: jsval

text \<open>\<^verbatim>\<open>a || b\<close>.\<close>

definition or_else :: "jsval \<Rightarrow> jsval \<Rightarrow> jsval" where
  "or_else a b = (if truthy a then a else b)"

text \<open>
  The conversion to a string that a template literal applies to a value of the request
  body throws a TypeError exactly when it meets an object with a property \<^verbatim>\<open>toString\<close>
  of its own: a JSON value is never callable, so neither that property nor a
  \<^verbatim>\<open>valueOf\<close> of the object's own gives a primitive, and the inherited \<^verbatim>\<open>valueOf\<close>
  returns the object. An object without it prints as \<^verbatim>\<open>[object Object]\<close>, and an array
  joins the conversions of its elements.
\<close>

fun toString_throws :: "jsval \<Rightarrow> bool" where
  "toString_throws (Obj kvs) = (map_of kvs ''toString'' \<noteq> None)"
| "toString_throws (Arr xs) = (\<exists>x \<in> set xs. toString_throws x)"
| "toString_throws _ = False"

text \<open>
  The handler, lines 153 to 161. It rejects a request that lacks a field (line 156);
  otherwise it writes a line to the console (line 158), which converts
  \<^verbatim>\<open>socketId\<close> and \<^verbatim>\<open>topic\<close> to strings and can throw, answers (line 159), and
  starts a run without awaiting it (line 160). \<open>Inl\<close> is the message of the TypeError of
  line 158: the handler's promise rejects, no answer is sent and no run is started.
  \<open>Inr\<close> carries the answer (status, \<^verbatim>\<open>success\<close>, \<^verbatim>\<open>message\<close>) and the arguments
  \<^verbatim>\<open>runDetoxAutomation\<close> is called with, if it is called.
\<close>

definition detox_start ::
  "body \<Rightarrow> string + ((nat \<times> bool \<times> string) \<times> (jsval \<times> jsval \<times> jsval \<times> jsval) option)" where
  "detox_start b =
     (if \<not> truthy (body_topic b) \<or> \<not> truthy (body_userCookies b) \<or> \<not> truthy (body_socketId b)
      then Inr ((400, False, ''Missing required parameters.''), None)
      else if toString_throws (body_socketId b) \<or> toString_throws (body_topic b)
      then Inl ''Cannot convert object to primitive value''
      else Inr ((200, True, ''Process initiated.''),
                Some (body_topic b, or_else (body_duration b) (Num 60), body_userCookies b,
                      body_socketId b)))"

section \<open>Reading a trace\<close>

fun is_detoxComplete :: "action \<Rightarrow> bool" where
  "is_detoxComplete (Emit _ (DetoxComplete _)) = True"
| "is_detoxComplete _ = False"

fun is_detoxError :: "action \<Rightarrow> bool" where
  "is_detoxError (Emit _ (DetoxError _)) = True"
| "is_detoxError _ = False"

text \<open>The pages navigated to and the waits, in order.\<close>

definition visited :: "action list \<Rightarrow> string list" where
  "visited tr = [u. Goto u \<leftarrow> tr]"

definition dwells :: "action list \<Rightarrow> int list" where
  "dwells tr = [d. Timeout d \<leftarrow> tr]"

text \<open>An action that is neither a terminal event nor the launch or the close of the engine.\<close>

definition quiet :: "action \<Rightarrow> bool" where
  "quiet a = (\<not> is_detoxComplete a \<and> \<not> is_detoxError a \<and> a \<noteq> Close \<and> a \<noteq> Launch)"

text \<open>The URLs of lines 109 and 125.\<close>

definition home :: string where
  "home = ''https://www.youtube.com/''"

definition watch_url :: "string \<Rightarrow> string" where
  "watch_url videoId = ''https://www.youtube.com/watch?v='' @ videoId"

section \<open>A concrete world\<close>

text \<open>
  A world in which every call succeeds: the cookie blob \<^verbatim>\<open>[]\<close> parses, the search
  answers with seven items of which five have a video id, and the browser does as told.
\<close>

definition example_world :: world where
  "example_world =
     \<lparr>JSON_parse = (\<lambda>v. if v = Str ''[]'' then Some (Arr []) else None),
      API_KEY = Some ''key'',
      axios_get = (\<lambda>q. Responds [Some ''a'', None, Some ''b'', Some ''c'', Some [],
                                    Some ''d'', Some ''e'']),
      puppeteer_launch = None,
      browser_newPage = None,
      page_setUserAgent = None,
      page_setCookie = (\<lambda>cs. None),
      page_goto = (\<lambda>n u. None),
      page_query = Inr True,
      browser_close = None\<rparr>"

section \<open>Lemmas on the parts of a run\<close>

lemma quiet_simps [simp]:
  "quiet (log_msg s m)" "quiet (emitLog s m t)" "quiet NewPage" "quiet SetUserAgent"
  "quiet (SetCookie cs)" "quiet (Goto u)" "quiet Query" "quiet (Timeout d)"
  "\<not> quiet Close" "\<not> quiet Launch" "\<not> quiet (Emit s (DetoxComplete m))"
  "\<not> quiet (Emit s (DetoxError m))"
  by (simp_all add: quiet_def log_msg_def emitLog_def)

lemma quiet_filters:
  assumes "\<forall>a \<in> set acts. quiet a"
  shows "filter is_detoxComplete acts = []" and "filter is_detoxError acts = []"
    and "count_list acts Close = 0" and "count_list acts Launch = 0"
    and "Close \<notin> set acts" and "Launch \<notin> set acts"
  using assms by (auto simp: quiet_def filter_empty_conv count_list_0_iff)

text \<open>The loop only logs, navigates and waits, however far it gets.\<close>

lemma watchLoop_quiet:
  "\<forall>a \<in> set (fst (watchLoop w s T len i ids t)). quiet a"
proof (induction ids arbitrary: i t)
  case Nil
  show ?case by simp
next
  case (Cons v rest)
  show ?case
    using Cons.IH [of "i + 1" "t + min MIN_WATCH_TIME_PER_VIDEO_MS (T - t)"]
    by (auto simp: Let_def split: option.splits prod.splits)
qed

lemma prepare_quiet: "\<forall>a \<in> set (fst (prepare w topic raw s)). quiet a"
  by (auto simp: prepare_def andThen_def emit_def split: sum.splits prod.splits)

text \<open>
  The part after the launch emits the success event last, and only when nothing threw.
\<close>

lemma session_shape:
  assumes "session w secs s cookies ids = (acts', r')"
  shows "\<exists>body. (\<forall>a \<in> set body. quiet a) \<and>
     (case r' of
        Inl e \<Rightarrow> acts' = body
      | Inr _ \<Rightarrow> (\<exists>m. acts' = body @ [Emit s (DetoxComplete m)]))"
  using watchLoop_quiet [of w s "secs * 1000" "length ids" 0 ids 0] assms
  apply (cases "watchLoop w s (secs * 1000) (length ids) 0 ids 0")
  apply (auto simp: session_def andThen_def emit_def call_def
      split: sum.splits prod.splits option.splits)
  done

text \<open>
  The three shapes of a run: it fails before the launch; the launch itself throws; or the
  engine is launched, and the run ends with one terminal event followed by the close.
\<close>

lemma run_shape:
  "(\<exists>acts e. (\<forall>a \<in> set acts. quiet a) \<and>
      runDetoxAutomation w topic secs raw s =
        \<lparr>trace = acts @ [Emit s (DetoxError e)], browser = False, rejected = None\<rparr>)
   \<or> (\<exists>acts e. (\<forall>a \<in> set acts. quiet a) \<and> puppeteer_launch w = Some e \<and>
      runDetoxAutomation w topic secs raw s =
        \<lparr>trace = acts @ [Launch, Emit s (DetoxError e)], browser = False, rejected = None\<rparr>)
   \<or> (\<exists>acts acts' t. (\<forall>a \<in> set acts. quiet a) \<and> (\<forall>a \<in> set acts'. quiet a) \<and>
        puppeteer_launch w = None \<and> (is_detoxComplete t \<noteq> is_detoxError t) \<and>
      runDetoxAutomation w topic secs raw s =
        \<lparr>trace = acts @ [Launch] @ acts' @ [t, Close], browser = True,
          rejected = browser_close w\<rparr>)"
proof (cases "prepare w topic raw s")
  case (Pair acts r)
  have q: "\<forall>a \<in> set acts. quiet a"
    using prepare_quiet [of w topic raw s] Pair by simp
  show ?thesis
  proof (cases r)
    case (Inl e)
    with Pair q show ?thesis
      by (auto simp: runDetoxAutomation_def tryBlock_def)
  next
    case (Inr cv)
    obtain cookies ids where cv: "cv = (cookies, ids)" by (cases cv)
    show ?thesis
    proof (cases "puppeteer_launch w")
      case (Some e)
      with Pair q Inr cv show ?thesis
        by (auto simp: runDetoxAutomation_def tryBlock_def)
    next
      case None
      obtain acts' r' where se: "session w secs s cookies ids = (acts', r')"
        by (cases "session w secs s cookies ids")
      from session_shape [OF se]
      obtain body where b: "\<forall>a \<in> set body. quiet a"
        and sh: "case r' of Inl e \<Rightarrow> acts' = body
                 | Inr _ \<Rightarrow> (\<exists>m. acts' = body @ [Emit s (DetoxComplete m)])"
        by auto
      show ?thesis
      proof (cases r')
        case (Inl e)
        with sh have "acts' = body" by simp
        with Pair q Inr cv None se Inl b show ?thesis
          apply (intro disjI2)
          apply (rule exI [of _ acts], rule exI [of _ body],
              rule exI [of _ "Emit s (DetoxError e)"])
          apply (simp add: runDetoxAutomation_def tryBlock_def)
          done
      next
        case (Inr u)
        with sh obtain m where "acts' = body @ [Emit s (DetoxComplete m)]" by auto
        with Pair q \<open>r = Inr cv\<close> cv None se Inr b show ?thesis
          apply (intro disjI2)
          apply (rule exI [of _ acts], rule exI [of _ body],
              rule exI [of _ "Emit s (DetoxComplete m)"])
          apply (simp add: runDetoxAutomation_def tryBlock_def)
          done
      qed
    qed
  qed
qed

text \<open>When the \<^verbatim>\<open>try\<close> block throws nothing, and what the run emits either way.\<close>

lemma andThen_snd:
  "snd (andThen m f) = (case snd m of Inl e \<Rightarrow> Inl e | Inr x \<Rightarrow> snd (f x))"
  by (cases m) (auto simp: andThen_def split: sum.splits prod.splits)

lemma prepare_result:
  "snd (prepare w topic raw s) = Inr (cookies, ids) \<longleftrightarrow>
     normalizeCookies (JSON_parse w) raw = Inr cookies
     \<and> getCuratedVideoIds w topic = Inr ids \<and> ids \<noteq> []"
  by (auto simp: prepare_def andThen_snd emit_def split: sum.splits)

lemma session_result:
  "snd (session w secs s cookies ids) = Inr () \<longleftrightarrow>
     browser_newPage w = None \<and> page_setUserAgent w = None
     \<and> page_setCookie w cookies = None \<and> page_goto w 0 home = None
     \<and> (\<exists>found. page_query w = Inr found)
     \<and> (\<exists>t. snd (watchLoop w s (secs * 1000) (length ids) 0 ids 0) = Inr t)"
  by (auto simp: session_def andThen_snd emit_def call_def home_def
      split: sum.splits option.splits)

lemma tryBlock_thrown:
  "(snd (snd (tryBlock w topic secs raw s)) = None) \<longleftrightarrow>
     (\<exists>cookies ids. normalizeCookies (JSON_parse w) raw = Inr cookies
        \<and> getCuratedVideoIds w topic = Inr ids \<and> ids \<noteq> []
        \<and> puppeteer_launch w = None \<and> browser_newPage w = None
        \<and> page_setUserAgent w = None \<and> page_setCookie w cookies = None
        \<and> page_goto w 0 home = None \<and> (\<exists>found. page_query w = Inr found)
        \<and> (\<exists>t. snd (watchLoop w s (secs * 1000) (length ids) 0 ids 0) = Inr t))"
proof (cases "prepare w topic raw s")
  case (Pair acts r)
  show ?thesis
  proof (cases r)
    case (Inl e)
    have "\<not> (normalizeCookies (JSON_parse w) raw = Inr cookies
        \<and> getCuratedVideoIds w topic = Inr ids \<and> ids \<noteq> [])" for cookies ids
      using prepare_result [of w topic raw s cookies ids] Pair Inl by simp
    moreover have "snd (snd (tryBlock w topic secs raw s)) \<noteq> None"
      using Pair Inl by (simp add: tryBlock_def)
    ultimately show ?thesis by blast
  next
    case (Inr cv)
    obtain cookies ids where cv: "cv = (cookies, ids)" by (cases cv)
    have "snd (prepare w topic raw s) = Inr (cookies, ids)"
      using Pair Inr cv by simp
    then have p: "normalizeCookies (JSON_parse w) raw = Inr cookies"
      "getCuratedVideoIds w topic = Inr ids" "ids \<noteq> []"
      by (simp_all add: prepare_result)
    have "(snd (snd (tryBlock w topic secs raw s)) = None) \<longleftrightarrow>
      puppeteer_launch w = None \<and> snd (session w secs s cookies ids) = Inr ()"
      using Pair Inr cv
      by (cases "session w secs s cookies ids")
         (auto simp: tryBlock_def split: option.splits sum.splits)
    then show ?thesis
      using p by (simp add: session_result)
  qed
qed

lemma run_terminal:
  "(case snd (snd (tryBlock w topic secs raw s)) of
      None \<Rightarrow>
        filter is_detoxError (trace (runDetoxAutomation w topic secs raw s)) = []
        \<and> (\<exists>m. filter is_detoxComplete (trace (runDetoxAutomation w topic secs raw s))
               = [Emit s (DetoxComplete m)])
    | Some e \<Rightarrow>
        filter is_detoxComplete (trace (runDetoxAutomation w topic secs raw s)) = []
        \<and> filter is_detoxError (trace (runDetoxAutomation w topic secs raw s))
             = [Emit s (DetoxError e)])"
proof (cases "prepare w topic raw s")
  case (Pair acts r)
  have q: "\<forall>a \<in> set acts. quiet a"
    using prepare_quiet [of w topic raw s] Pair by simp
  show ?thesis
  proof (cases r)
    case (Inl e)
    with Pair q show ?thesis
      by (simp add: runDetoxAutomation_def tryBlock_def quiet_filters)
  next
    case (Inr cv)
    obtain cookies ids where cv: "cv = (cookies, ids)" by (cases cv)
    show ?thesis
    proof (cases "puppeteer_launch w")
      case (Some e)
      with Pair q Inr cv show ?thesis
        by (simp add: runDetoxAutomation_def tryBlock_def quiet_filters)
    next
      case None
      obtain acts' r' where se: "session w secs s cookies ids = (acts', r')"
        by (cases "session w secs s cookies ids")
      from session_shape [OF se]
      obtain body where b: "\<forall>a \<in> set body. quiet a"
        and sh: "case r' of Inl e \<Rightarrow> acts' = body
                 | Inr _ \<Rightarrow> (\<exists>m. acts' = body @ [Emit s (DetoxComplete m)])"
        by auto
      show ?thesis
      proof (cases r')
        case (Inl e)
        with sh have "acts' = body" by simp
        with Pair q Inr cv None se Inl b show ?thesis
          by (simp add: runDetoxAutomation_def tryBlock_def quiet_filters)
      next
        case (Inr u)
        with sh obtain m where "acts' = body @ [Emit s (DetoxComplete m)]" by auto
        with Pair q \<open>r = Inr cv\<close> cv None se Inr b show ?thesis
          by (simp add: runDetoxAutomation_def tryBlock_def quiet_filters)
      qed
    qed
  qed
qed

lemmas run_unfold = runDetoxAutomation_def tryBlock_def prepare_def session_def andThen_def
  emit_def call_def

lemmas trace_unfold = visited_def dwells_def log_msg_def emitLog_def home_def watch_url_def
  MIN_WATCH_TIME_PER_VIDEO_MS_def

lemma visited_append [simp]: "visited (xs @ ys) = visited xs @ visited ys"
  by (simp add: visited_def)

lemma dwells_append [simp]: "dwells (xs @ ys) = dwells xs @ dwells ys"
  by (simp add: dwells_def)

text \<open>With nothing to watch, the loop does nothing, and the run visits no video page.\<close>

lemma watchLoop_no_budget:
  "T \<le> 0 \<Longrightarrow> watchLoop w s T len i ids 0 = ([], Inr 0)"
  by (cases ids) simp_all

lemma session_no_budget:
  "set (visited (fst (session w 0 s cookies ids))) \<subseteq> {home}
   \<and> dwells (fst (session w 0 s cookies ids)) = []"
  by (auto simp: session_def andThen_def emit_def call_def watchLoop_no_budget trace_unfold
      split: sum.splits option.splits)

lemma prepare_no_browser:
  "visited (fst (prepare w topic raw s)) = [] \<and> dwells (fst (prepare w topic raw s)) = []"
  by (auto simp: prepare_def andThen_def emit_def trace_unfold split: sum.splits)

lemma toFixed1_0: "toFixed1 0 = ''0.0''"
  by code_simp

lemma toLowerCase_examples:
  "toLowerCase ''No_Restriction'' = ''no_restriction''"
  "toLowerCase ''LAX'' = ''lax''"
  "toLowerCase ''bogus'' = ''bogus''"
  "toLowerCase ''STRICT'' = ''strict''"
  "toLowerCase ''None'' = ''none''"
  by code_simp+

text \<open>The fields of an entry after each of the two parts of the normalization.\<close>

lemma stripFields_map:
  "map_of (stripFields cookie) k =
     (if k = ''storeId'' \<or> k = ''id''
         \<or> (k = ''expirationDate'' \<and> truthy (get_prop (spread cookie) ''session''))
      then None else map_of (spread cookie) k)"
  by (simp add: stripFields_def Let_def get_prop_def delete_conv)

lemma normalizeSameSite_other:
  "k \<noteq> ''sameSite'' \<Longrightarrow> map_of (normalizeSameSite al) k = map_of al k"
  by (cases "get_prop al ''sameSite''")
     (simp_all add: normalizeSameSite_def Let_def delete_conv update_conv)

lemma normalizeSameSite_sameSite:
  "map_of (normalizeSameSite al) ''sameSite'' =
     (case get_prop al ''sameSite'' of
        Str s \<Rightarrow>
          if s = [] then Some (Str [])
          else if toLowerCase s = ''no_restriction'' then Some (Str ''None'')
          else if toLowerCase s \<in> {''strict'', ''lax'', ''none''} then Some (Str s)
          else None
      | Null \<Rightarrow> None
      | Undefined \<Rightarrow> None
      | v \<Rightarrow> Some v)"
  by (cases "get_prop al ''sameSite''")
     (auto simp: normalizeSameSite_def Let_def delete_conv update_conv get_prop_def
        split: option.splits)

lemma stripFields_sameSite:
  "get_prop (stripFields cookie) ''sameSite'' = get_prop (spread cookie) ''sameSite''"
  by (simp add: get_prop_def stripFields_map)

section \<open>The engine is released on every path\<close>

text \<open>
  C1. In every run, whatever the libraries answer: the variable \<^verbatim>\<open>browser\<close> is set exactly
  when \<^verbatim>\<open>puppeteer.launch\<close> was called and returned; the launch is called at most once;
  \<^verbatim>\<open>browser.close\<close> is called exactly once when the engine was launched and not at all
  otherwise; and when it is called, it is the last thing the run does, after the terminal
  event. This covers success, a navigation that throws, and any other exception after the
  launch, as well as the runs that fail before or in the launch.
\<close>

theorem engine_closed_exactly_once:
  "(let r = runDetoxAutomation w topic totalDurationSeconds rawCookies socketId
    in browser r = (Launch \<in> set (trace r) \<and> puppeteer_launch w = None)
       \<and> count_list (trace r) Launch \<le> 1
       \<and> count_list (trace r) Close = (if browser r then 1 else 0)
       \<and> (browser r \<longrightarrow> last (trace r) = Close))"
  using run_shape [of w topic totalDurationSeconds rawCookies socketId]
  by (auto simp: Let_def quiet_filters)

theorem engine_closed_exactly_once_witness:
  "browser (runDetoxAutomation example_world ''rust'' 65 (Str ''[]'') ''sock'')
   \<and> last (trace (runDetoxAutomation example_world ''rust'' 65 (Str ''[]'') ''sock'')) = Close
   \<and> count_list (trace (runDetoxAutomation example_world ''rust'' 65 (Str ''[]'') ''sock''))
       Close = 1
   \<and> count_list (trace (runDetoxAutomation
         (example_world\<lparr>page_goto := (\<lambda>n u. if n = 2 then Some ''net::ERR_FAILED'' else None)\<rparr>)
         ''rust'' 65 (Str ''[]'') ''sock'')) Close = 1
   \<and> count_list (trace (runDetoxAutomation
         (example_world\<lparr>puppeteer_launch := Some ''Failed to launch the browser process''\<rparr>)
         ''rust'' 65 (Str ''[]'') ''sock'')) Close = 0"
proof -
  have "browser (runDetoxAutomation example_world ''rust'' 65 (Str ''[]'') ''sock'')"
    and "browser (runDetoxAutomation
         (example_world\<lparr>page_goto := (\<lambda>n u. if n = 2 then Some ''net::ERR_FAILED'' else None)\<rparr>)
         ''rust'' 65 (Str ''[]'') ''sock'')"
    and "\<not> browser (runDetoxAutomation
         (example_world\<lparr>puppeteer_launch := Some ''Failed to launch the browser process''\<rparr>)
         ''rust'' 65 (Str ''[]'') ''sock'')"
    by code_simp+
  with engine_closed_exactly_once [of example_world "''rust''" 65 "Str ''[]''" "''sock''"]
    engine_closed_exactly_once [of
      "example_world\<lparr>page_goto := (\<lambda>n u. if n = 2 then Some ''net::ERR_FAILED'' else None)\<rparr>"
      "''rust''" 65 "Str ''[]''" "''sock''"]
    engine_closed_exactly_once [of
      "example_world\<lparr>puppeteer_launch := Some ''Failed to launch the browser process''\<rparr>"
      "''rust''" 65 "Str ''[]''" "''sock''"]
  show ?thesis by (simp add: Let_def)
qed

section \<open>One terminal event\<close>

text \<open>
  C2. Every run emits exactly one terminal event: the number of \<^verbatim>\<open>detoxComplete\<close> events
  and the number of \<^verbatim>\<open>detoxError\<close> events of its trace add up to one, whatever was
  logged before. Which one it is follows the \<^verbatim>\<open>try\<close> block. The block throws nothing
  exactly when every step returns: the cookies parse, the resolver gives a non-empty list,
  the launch, the new page, the user agent, the cookies, the home page and the login probe
  return, and no navigation of the loop throws. Then the event is \<^verbatim>\<open>detoxComplete\<close> and
  there is no \<^verbatim>\<open>detoxError\<close>. When the block throws, the event is \<^verbatim>\<open>detoxError\<close> with
  the message of the error thrown, and there is no \<^verbatim>\<open>detoxComplete\<close>.
\<close>

theorem exactly_one_terminal_event:
  "(let r = runDetoxAutomation w topic totalDurationSeconds rawCookies socketId;
        thrown = snd (snd (tryBlock w topic totalDurationSeconds rawCookies socketId))
    in length (filter is_detoxComplete (trace r)) + length (filter is_detoxError (trace r)) = 1
       \<and> (thrown = None \<longleftrightarrow>
            (\<exists>cookies ids. normalizeCookies (JSON_parse w) rawCookies = Inr cookies
               \<and> getCuratedVideoIds w topic = Inr ids \<and> ids \<noteq> []
               \<and> puppeteer_launch w = None \<and> browser_newPage w = None
               \<and> page_setUserAgent w = None \<and> page_setCookie w cookies = None
               \<and> page_goto w 0 home = None \<and> (\<exists>found. page_query w = Inr found)
               \<and> (\<exists>t. snd (watchLoop w socketId (totalDurationSeconds * 1000) (length ids)
                              0 ids 0) = Inr t)))
       \<and> (case thrown of
             None \<Rightarrow>
               filter is_detoxError (trace r) = []
               \<and> (\<exists>m. filter is_detoxComplete (trace r) = [Emit socketId (DetoxComplete m)])
           | Some e \<Rightarrow>
               filter is_detoxComplete (trace r) = []
               \<and> filter is_detoxError (trace r) = [Emit socketId (DetoxError e)]))"
proof -
  let ?r = "runDetoxAutomation w topic totalDurationSeconds rawCookies socketId"
  have "length (filter is_detoxComplete (trace ?r)) + length (filter is_detoxError (trace ?r)) = 1"
    using run_shape [of w topic totalDurationSeconds rawCookies socketId]
    by (auto simp: quiet_filters)
  then show ?thesis
    using tryBlock_thrown [of w topic totalDurationSeconds rawCookies socketId]
      run_terminal [of w topic totalDurationSeconds rawCookies socketId]
    unfolding Let_def by blast
qed

theorem exactly_one_terminal_event_witness:
  "filter is_detoxError
       (trace (runDetoxAutomation example_world ''rust'' 65 (Str ''[]'') ''sock'')) = []
   \<and> length (filter is_detoxComplete
       (trace (runDetoxAutomation example_world ''rust'' 65 (Str ''[]'') ''sock''))) = 1
   \<and> filter is_detoxComplete (trace (runDetoxAutomation
         (example_world\<lparr>puppeteer_launch := Some ''Failed to launch the browser process''\<rparr>)
         ''rust'' 65 (Str ''[]'') ''sock'')) = []
   \<and> filter is_detoxError (trace (runDetoxAutomation
         (example_world\<lparr>puppeteer_launch := Some ''Failed to launch the browser process''\<rparr>)
         ''rust'' 65 (Str ''[]'') ''sock''))
       = [Emit ''sock'' (DetoxError ''Failed to launch the browser process'')]"
proof -
  have "snd (snd (tryBlock example_world ''rust'' 65 (Str ''[]'') ''sock'')) = None"
    and "snd (snd (tryBlock
         (example_world\<lparr>puppeteer_launch := Some ''Failed to launch the browser process''\<rparr>)
         ''rust'' 65 (Str ''[]'') ''sock'')) = Some ''Failed to launch the browser process''"
    by code_simp+
  with exactly_one_terminal_event [of example_world "''rust''" 65 "Str ''[]''" "''sock''"]
    exactly_one_terminal_event [of
      "example_world\<lparr>puppeteer_launch := Some ''Failed to launch the browser process''\<rparr>"
      "''rust''" 65 "Str ''[]''" "''sock''"]
  show ?thesis by (auto simp: Let_def)
qed

section \<open>The watch loop\<close>

text \<open>
  C3. With a total duration of 65 seconds, a resolved list of at least four identifiers
  and a run that reaches the loop (the cookies parse, the launch and the steps up to the
  login probe return) in which no navigation fails, the pages visited are the home page
  and then the first three videos in order, and the waits are 30000, 30000 and 5000 ms:
  the fourth video is never visited.
\<close>

theorem watch_65_seconds:
  assumes "normalizeCookies (JSON_parse w) rawCookies = Inr cookies"
    and "getCuratedVideoIds w topic = Inr (a # b # c # d # others)"
    and "puppeteer_launch w = None"
    and "browser_newPage w = None"
    and "page_setUserAgent w = None"
    and "page_setCookie w cookies = None"
    and "page_query w = Inr found"
    and "\<And>n u. n \<le> 3 \<Longrightarrow> page_goto w n u = None"
  shows "(let r = runDetoxAutomation w topic 65 rawCookies socketId
          in visited (trace r) = [home, watch_url a, watch_url b, watch_url c]
             \<and> dwells (trace r) = [30000, 30000, 5000])"
  using assms by (simp add: run_unfold trace_unfold Let_def)

theorem watch_65_seconds_witness:
  "visited (trace (runDetoxAutomation example_world ''rust'' 65 (Str ''[]'') ''sock''))
     = [home, watch_url ''a'', watch_url ''b'', watch_url ''c'']
   \<and> dwells (trace (runDetoxAutomation example_world ''rust'' 65 (Str ''[]'') ''sock''))
     = [30000, 30000, 5000]"
  using watch_65_seconds [of example_world "Str ''[]''" "[]" "''rust''" "''a''" "''b''" "''c''"
      "''d''" "[''e'']" True "''sock''"]
  by (simp add: example_world_def normalizeCookies_def getCuratedVideoIds_def Let_def)

text \<open>
  C4. With a total duration of 0 seconds no run visits a video page or waits: the only
  page a run can navigate to is the home page. When the resolved list is not empty and
  the run reaches the loop (the cookies parse, the launch and the steps up to the login
  probe return), it emits no \<^verbatim>\<open>detoxError\<close> and emits the success event
  \<^verbatim>\<open>detoxComplete\<close>, whose message reports a total of 0.0s.
\<close>

theorem zero_duration:
  "(let r = runDetoxAutomation w topic 0 rawCookies socketId
    in set (visited (trace r)) \<subseteq> {home} \<and> dwells (trace r) = []
       \<and> (normalizeCookies (JSON_parse w) rawCookies = Inr cookies
            \<and> getCuratedVideoIds w topic = Inr videoIds \<and> videoIds \<noteq> []
            \<and> puppeteer_launch w = None \<and> browser_newPage w = None
            \<and> page_setUserAgent w = None \<and> page_setCookie w cookies = None
            \<and> page_goto w 0 home = None \<and> page_query w = Inr found
          \<longrightarrow> visited (trace r) = [home]
              \<and> filter is_detoxError (trace r) = []
              \<and> filter is_detoxComplete (trace r) =
                  [Emit socketId (DetoxComplete
                     ''Detox session finished. Total time simulated: 0.0s.'')]))"
proof -
  let ?r = "runDetoxAutomation w topic 0 rawCookies socketId"
  have a: "set (visited (trace ?r)) \<subseteq> {home} \<and> dwells (trace ?r) = []"
  proof (cases "prepare w topic rawCookies socketId")
    case (Pair acts res)
    then have p: "visited acts = []" "dwells acts = []"
      using prepare_no_browser [of w topic rawCookies socketId] by simp_all
    show ?thesis
    proof (cases res)
      case (Inl e)
      with Pair p show ?thesis
        by (simp add: runDetoxAutomation_def tryBlock_def) (simp add: visited_def dwells_def)
    next
      case (Inr cv)
      obtain cs ids where cv: "cv = (cs, ids)" by (cases cv)
      obtain acts' res' where se: "session w 0 socketId cs ids = (acts', res')"
        by (cases "session w 0 socketId cs ids")
      then have "set (visited acts') \<subseteq> {home}" "dwells acts' = []"
        using session_no_budget [of w socketId cs ids] by simp_all
      with Pair p Inr cv se show ?thesis
        by (cases "puppeteer_launch w"; cases res')
           (simp_all add: runDetoxAutomation_def tryBlock_def, simp_all add: visited_def dwells_def)
    qed
  qed
  have b: "visited (trace ?r) = [home] \<and> filter is_detoxError (trace ?r) = []
      \<and> filter is_detoxComplete (trace ?r) =
          [Emit socketId (DetoxComplete ''Detox session finished. Total time simulated: 0.0s.'')]"
    if h: "normalizeCookies (JSON_parse w) rawCookies = Inr cookies"
      "getCuratedVideoIds w topic = Inr videoIds" "videoIds \<noteq> []"
      "puppeteer_launch w = None" "browser_newPage w = None"
      "page_setUserAgent w = None" "page_setCookie w cookies = None"
      "page_goto w 0 home = None" "page_query w = Inr found"
  proof -
    obtain v rest where "videoIds = v # rest"
      using h(3) by (cases videoIds) auto
    with h show ?thesis
      by (simp add: run_unfold trace_unfold Let_def toFixed1_0)
  qed
  from a b show ?thesis by (simp add: Let_def)
qed

theorem zero_duration_witness:
  "visited (trace (runDetoxAutomation example_world ''rust'' 0 (Str ''[]'') ''sock'')) = [home]
   \<and> filter is_detoxComplete
        (trace (runDetoxAutomation example_world ''rust'' 0 (Str ''[]'') ''sock''))
       = [Emit ''sock'' (DetoxComplete ''Detox session finished. Total time simulated: 0.0s.'')]"
  using zero_duration [of example_world "''rust''" "Str ''[]''" "''sock''" "[]"
      "[''a'', ''b'', ''c'', ''d'', ''e'']" True]
  by (simp add: example_world_def normalizeCookies_def getCuratedVideoIds_def Let_def home_def)

section \<open>Failures\<close>

text \<open>
  C5. When the content resolver returns the empty sequence, the run never calls
  \<^verbatim>\<open>puppeteer.launch\<close>, the variable \<^verbatim>\<open>browser\<close> stays unset, exactly one
  \<^verbatim>\<open>detoxError\<close> event is emitted and no \<^verbatim>\<open>detoxComplete\<close>.
\<close>

theorem empty_resolution:
  assumes "getCuratedVideoIds w topic = Inr []"
  shows "(let r = runDetoxAutomation w topic totalDurationSeconds rawCookies socketId
          in Launch \<notin> set (trace r) \<and> \<not> browser r
             \<and> length (filter is_detoxError (trace r)) = 1
             \<and> filter is_detoxComplete (trace r) = [])"
  using assms
  by (cases "normalizeCookies (JSON_parse w) rawCookies")
     (simp_all add: run_unfold trace_unfold Let_def)

theorem empty_resolution_witness:
  "Launch \<notin> set (trace (runDetoxAutomation (example_world\<lparr>axios_get := (\<lambda>q. Responds [])\<rparr>)
       ''rust'' 65 (Str ''[]'') ''sock''))
   \<and> length (filter is_detoxError (trace (runDetoxAutomation
       (example_world\<lparr>axios_get := (\<lambda>q. Responds [])\<rparr>) ''rust'' 65 (Str ''[]'') ''sock''))) = 1"
  using empty_resolution [of "example_world\<lparr>axios_get := (\<lambda>q. Responds [])\<rparr>" "''rust''" 65
      "Str ''[]''" "''sock''"]
  by (simp add: example_world_def getCuratedVideoIds_def Let_def)

text \<open>
  C6. With five resolved identifiers and a duration of more than 30 seconds, in a run that
  reaches the loop and whose first video loads, a navigation to the second video that
  throws ends the run: the pages visited are the home page, the first and the second
  video, each once (no retry, and the third to fifth are never visited), the only wait
  is the first video's, exactly one \<^verbatim>\<open>detoxError\<close> is emitted, with the message of the
  navigation error, no \<^verbatim>\<open>detoxComplete\<close>, and \<^verbatim>\<open>browser.close\<close> is called once.
\<close>

theorem navigation_failure_on_item_2:
  assumes "normalizeCookies (JSON_parse w) rawCookies = Inr cookies"
    and "getCuratedVideoIds w topic = Inr [a, b, c, d, e]"
    and "puppeteer_launch w = None"
    and "browser_newPage w = None"
    and "page_setUserAgent w = None"
    and "page_setCookie w cookies = None"
    and "page_goto w 0 home = None"
    and "page_query w = Inr found"
    and "30 < totalDurationSeconds"
    and "page_goto w 1 (watch_url a) = None"
    and "page_goto w 2 (watch_url b) = Some message"
  shows "(let r = runDetoxAutomation w topic totalDurationSeconds rawCookies socketId
          in visited (trace r) = [home, watch_url a, watch_url b]
             \<and> dwells (trace r) = [30000]
             \<and> filter is_detoxError (trace r) = [Emit socketId (DetoxError message)]
             \<and> filter is_detoxComplete (trace r) = []
             \<and> count_list (trace r) Close = 1)"
  using assms by (simp add: run_unfold trace_unfold Let_def numeral_2_eq_2)

theorem navigation_failure_on_item_2_witness:
  "visited (trace (runDetoxAutomation
       (example_world\<lparr>page_goto := (\<lambda>n u. if n = 2 then Some ''net::ERR_FAILED'' else None)\<rparr>)
       ''rust'' 600 (Str ''[]'') ''sock''))
     = [home, watch_url ''a'', watch_url ''b'']
   \<and> filter is_detoxError (trace (runDetoxAutomation
       (example_world\<lparr>page_goto := (\<lambda>n u. if n = 2 then Some ''net::ERR_FAILED'' else None)\<rparr>)
       ''rust'' 600 (Str ''[]'') ''sock''))
     = [Emit ''sock'' (DetoxError ''net::ERR_FAILED'')]
   \<and> count_list (trace (runDetoxAutomation
       (example_world\<lparr>page_goto := (\<lambda>n u. if n = 2 then Some ''net::ERR_FAILED'' else None)\<rparr>)
       ''rust'' 600 (Str ''[]'') ''sock'')) Close = 1"
  using navigation_failure_on_item_2 [of
      "example_world\<lparr>page_goto := (\<lambda>n u. if n = 2 then Some ''net::ERR_FAILED'' else None)\<rparr>"
      "Str ''[]''" "[]" "''rust''" "''a''" "''b''" "''c''" "''d''" "''e''" True 600
      "''net::ERR_FAILED''" "''sock''"]
  by (simp add: example_world_def normalizeCookies_def getCuratedVideoIds_def Let_def)

section \<open>Cookie normalization\<close>

text \<open>
  C7, as the code has it. Let \<open>v\<close> be the entry's \<^verbatim>\<open>sameSite\<close> and \<open>r\<close> the normalized
  entry's. If \<open>v\<close> is a non-empty string: when it is \<^verbatim>\<open>no_restriction\<close> in any casing,
  \<open>r\<close> is exactly \<^verbatim>\<open>None\<close>; when it is \<^verbatim>\<open>strict\<close>, \<^verbatim>\<open>lax\<close> or \<^verbatim>\<open>none\<close> in any casing,
  \<open>r\<close> is \<open>v\<close> itself, in the casing it came in; any other non-empty string is removed.
  A \<^verbatim>\<open>null\<close> or absent field is removed. Every other value (the empty string, a number,
  a boolean, an array, an object) is kept as it is. So a non-empty string that survives
  normalization is, up to casing, one of \<^verbatim>\<open>strict\<close>, \<^verbatim>\<open>lax\<close> and \<^verbatim>\<open>none\<close>.
\<close>

theorem sameSite_normalization:
  "(let v = get_prop (spread cookie) ''sameSite'';
        r = map_of (normalizeCookie cookie) ''sameSite''
    in (\<forall>s. v = Str s \<and> s \<noteq> [] \<longrightarrow>
          (toLowerCase s = ''no_restriction'' \<longrightarrow> r = Some (Str ''None''))
        \<and> (toLowerCase s \<in> {''strict'', ''lax'', ''none''} \<longrightarrow> r = Some (Str s))
        \<and> (toLowerCase s \<notin> {''no_restriction'', ''strict'', ''lax'', ''none''} \<longrightarrow> r = None))
     \<and> (v = Null \<or> v = Undefined \<longrightarrow> r = None)
     \<and> (\<not> (truthy v \<and> is_string v) \<and> v \<noteq> Null \<and> v \<noteq> Undefined \<longrightarrow> r = Some v)
     \<and> (\<forall>s. r = Some (Str s) \<and> s \<noteq> [] \<longrightarrow>
          toLowerCase s \<in> {''strict'', ''lax'', ''none''}))"
proof -
  define v where "v = get_prop (spread cookie) ''sameSite''"
  have r: "map_of (normalizeCookie cookie) ''sameSite'' =
     (case v of
        Str s \<Rightarrow>
          if s = [] then Some (Str [])
          else if toLowerCase s = ''no_restriction'' then Some (Str ''None'')
          else if toLowerCase s \<in> {''strict'', ''lax'', ''none''} then Some (Str s)
          else None
      | Null \<Rightarrow> None
      | Undefined \<Rightarrow> None
      | v \<Rightarrow> Some v)"
    by (simp only: normalizeCookie_def normalizeSameSite_sameSite stripFields_sameSite v_def)
  show ?thesis
    unfolding Let_def v_def [symmetric] r
    by (cases v) (auto simp: toLowerCase_examples)
qed

theorem sameSite_normalization_witness:
  "map_of (normalizeCookie (Obj [(''sameSite'', Str ''No_Restriction'')])) ''sameSite''
     = Some (Str ''None'')
   \<and> map_of (normalizeCookie (Obj [(''sameSite'', Str ''LAX'')])) ''sameSite''
     = Some (Str ''LAX'')
   \<and> map_of (normalizeCookie (Obj [(''sameSite'', Str ''bogus'')])) ''sameSite'' = None
   \<and> map_of (normalizeCookie (Obj [(''sameSite'', Null)])) ''sameSite'' = None
   \<and> map_of (normalizeCookie (Obj [(''sameSite'', Num 5)])) ''sameSite'' = Some (Num 5)"
  using sameSite_normalization [of "Obj [(''sameSite'', Str ''No_Restriction'')]"]
    sameSite_normalization [of "Obj [(''sameSite'', Str ''LAX'')]"]
    sameSite_normalization [of "Obj [(''sameSite'', Str ''bogus'')]"]
    sameSite_normalization [of "Obj [(''sameSite'', Null)]"]
    sameSite_normalization [of "Obj [(''sameSite'', Num 5)]"]
  by (simp add: Let_def get_prop_def toLowerCase_examples)

text \<open>
  The entry \<^verbatim>\<open>{"sameSite": "STRICT"}\<close> keeps its \<^verbatim>\<open>sameSite\<close> as it came: the casing is
  not made canonical, and the value is none of the enum's, in either spelling.
\<close>

theorem sameSite_casing_counterexample:
  "map_of (normalizeCookie (Obj [(''sameSite'', Str ''STRICT'')])) ''sameSite''
     = Some (Str ''STRICT'')
   \<and> map_of (normalizeCookie (Obj [(''sameSite'', Str ''STRICT'')])) ''sameSite''
     \<notin> {None, Some (Str ''Strict''), Some (Str ''Lax''), Some (Str ''None''),
         Some (Str ''strict''), Some (Str ''lax''), Some (Str ''none'')}"
  by (simp add: normalizeCookie_def normalizeSameSite_sameSite get_prop_def stripFields_map
      toLowerCase_examples)

text \<open>
  C8. A normalized entry has no \<^verbatim>\<open>storeId\<close> and no \<^verbatim>\<open>id\<close>, and when the entry's
  \<^verbatim>\<open>session\<close> is true (or any truthy value) it has no \<^verbatim>\<open>expirationDate\<close>.
\<close>

theorem identity_fields_stripped:
  "map_of (normalizeCookie cookie) ''storeId'' = None
   \<and> map_of (normalizeCookie cookie) ''id'' = None
   \<and> (truthy (get_prop (spread cookie) ''session'') \<longrightarrow>
        map_of (normalizeCookie cookie) ''expirationDate'' = None)"
  by (simp add: normalizeCookie_def normalizeSameSite_other stripFields_map)

theorem identity_fields_stripped_witness:
  "get_prop (spread (Obj [(''name'', Str ''SID''), (''id'', Num 1), (''storeId'', Str ''0''),
       (''session'', Bool True), (''expirationDate'', Num 1700000000)])) ''session'' = Bool True
   \<and> map_of (normalizeCookie (Obj [(''name'', Str ''SID''), (''id'', Num 1),
       (''storeId'', Str ''0''), (''session'', Bool True), (''expirationDate'', Num 1700000000)]))
       ''expirationDate'' = None
   \<and> map_of (normalizeCookie (Obj [(''name'', Str ''SID''), (''id'', Num 1),
       (''storeId'', Str ''0''), (''session'', Bool True), (''expirationDate'', Num 1700000000)]))
       ''id'' = None"
  using identity_fields_stripped [of "Obj [(''name'', Str ''SID''), (''id'', Num 1),
       (''storeId'', Str ''0''), (''session'', Bool True), (''expirationDate'', Num 1700000000)]"]
  by (simp add: get_prop_def)

text \<open>
  C9, as the code has it. The credential step (lines 49 to 81) throws the message of line
  50 when the raw value is absent (falsy) and the message of line 56 when \<^verbatim>\<open>JSON.parse\<close>
  throws. When the parse gives an array, the step returns its elements transformed one by
  one, in order, whatever JSON values they are: the elements are not validated, and the
  transformation is a total function of the element. The step returns in that case only.
\<close>

theorem credential_step_outcomes:
  "(\<not> truthy rawCookies \<longrightarrow> normalizeCookies parse rawCookies =
        Inl ''User authentication failed: Cookies were not provided.'')
   \<and> (truthy rawCookies \<and> parse rawCookies = None \<longrightarrow> normalizeCookies parse rawCookies =
        Inl ''User authentication failed: Cookies format is invalid JSON.'')
   \<and> (\<forall>entries. truthy rawCookies \<and> parse rawCookies = Some (Arr entries) \<longrightarrow>
        normalizeCookies parse rawCookies = Inr (map normalizeCookie entries))
   \<and> ((\<exists>cookies. normalizeCookies parse rawCookies = Inr cookies) \<longleftrightarrow>
        truthy rawCookies \<and> (\<exists>entries. parse rawCookies = Some (Arr entries)))"
proof -
  have "(\<exists>cookies. array_map normalizeCookie v = Inr cookies) \<longleftrightarrow> (\<exists>entries. v = Arr entries)"
    for v
    by (cases v) simp_all
  then show ?thesis
    by (auto simp: normalizeCookies_def split: option.splits)
qed

theorem credential_step_outcomes_witness:
  "normalizeCookies (\<lambda>v. if v = Str ''one entry'' then Some (Arr [Obj [(''id'', Num 1)]]) else None)
     (Str ''one entry'') = Inr [[]]
   \<and> normalizeCookies (\<lambda>v. if v = Str ''one entry'' then Some (Arr [Obj [(''id'', Num 1)]]) else None)
     (Str ''not json'') = Inl ''User authentication failed: Cookies format is invalid JSON.''
   \<and> normalizeCookies (\<lambda>v. if v = Str ''one entry'' then Some (Arr [Obj [(''id'', Num 1)]]) else None)
     (Str []) = Inl ''User authentication failed: Cookies were not provided.''"
  using credential_step_outcomes
      [of "Str ''one entry''"
        "\<lambda>v. if v = Str ''one entry'' then Some (Arr [Obj [(''id'', Num 1)]]) else None"]
    credential_step_outcomes
      [of "Str ''not json''"
        "\<lambda>v. if v = Str ''one entry'' then Some (Arr [Obj [(''id'', Num 1)]]) else None"]
    credential_step_outcomes
      [of "Str []"
        "\<lambda>v. if v = Str ''one entry'' then Some (Arr [Obj [(''id'', Num 1)]]) else None"]
  by (simp add: normalizeCookie_def normalizeSameSite_def stripFields_def get_prop_def)

text \<open>
  The blob \<^verbatim>\<open>[5,null]\<close> is not a sequence of entry records, and the credential step
  accepts it: it returns two empty entries, and the run goes on.
\<close>

theorem unvalidated_entries_counterexample:
  "\<not> is_record (Num 5) \<and> \<not> is_record Null
   \<and> normalizeCookies (\<lambda>v. Some (Arr [Num 5, Null])) (Str ''[5,null]'') = Inr [[], []]"
  by (simp add: normalizeCookies_def normalizeCookie_def normalizeSameSite_def stripFields_def
      get_prop_def)

section \<open>The default duration\<close>

text \<open>
  C10. Whenever the handler starts a run, the duration it passes to
  \<^verbatim>\<open>runDetoxAutomation\<close> is the supplied one if that is truthy and 60 otherwise; an
  explicit 0 is falsy, so a request for 0 seconds starts a run of 60. The handler starts
  a run exactly when \<^verbatim>\<open>topic\<close>, \<^verbatim>\<open>userCookies\<close> and \<^verbatim>\<open>socketId\<close> are truthy and the
  console line of line 158 can be written, which it can for every string.
\<close>

theorem default_duration:
  "(truthy (body_topic b) \<and> truthy (body_userCookies b) \<and> truthy (body_socketId b)
      \<and> \<not> toString_throws (body_socketId b) \<and> \<not> toString_throws (body_topic b) \<longrightarrow>
      detox_start b =
        Inr ((200, True, ''Process initiated.''),
             Some (body_topic b,
                   (if truthy (body_duration b) then body_duration b else Num 60),
                   body_userCookies b, body_socketId b)))
   \<and> (\<forall>answer args. detox_start b = Inr (answer, Some args) \<longrightarrow>
        args = (body_topic b,
                (if truthy (body_duration b) then body_duration b else Num 60),
                body_userCookies b, body_socketId b))
   \<and> (\<forall>answer t d c s. body_duration b = Num 0
          \<and> detox_start b = Inr (answer, Some (t, d, c, s)) \<longrightarrow> d = Num 60)
   \<and> ((\<exists>answer args. detox_start b = Inr (answer, Some args)) \<longleftrightarrow>
        truthy (body_topic b) \<and> truthy (body_userCookies b) \<and> truthy (body_socketId b)
        \<and> \<not> toString_throws (body_socketId b) \<and> \<not> toString_throws (body_topic b))"
  by (auto simp: detox_start_def or_else_def split: if_splits)

theorem default_duration_witness:
  "detox_start \<lparr>body_topic = Str ''rust'', body_duration = Num 0,
       body_userCookies = Str ''[]'', body_socketId = Str ''sock''\<rparr>
     = Inr ((200, True, ''Process initiated.''),
            Some (Str ''rust'', Num 60, Str ''[]'', Str ''sock''))
   \<and> detox_start \<lparr>body_topic = Str ''rust'', body_duration = Num 90,
       body_userCookies = Str ''[]'', body_socketId = Str ''sock''\<rparr>
     = Inr ((200, True, ''Process initiated.''),
            Some (Str ''rust'', Num 90, Str ''[]'', Str ''sock''))"
  using default_duration [THEN conjunct1, of "\<lparr>body_topic = Str ''rust'', body_duration = Num 0,
       body_userCookies = Str ''[]'', body_socketId = Str ''sock''\<rparr>"]
    default_duration [THEN conjunct1, of "\<lparr>body_topic = Str ''rust'', body_duration = Num 90,
       body_userCookies = Str ''[]'', body_socketId = Str ''sock''\<rparr>"]
  by simp

end
